theory Spec2Isabelle
  imports Complex_Main
begin

section \<open>The order-and-inventory ledger of the point-of-sale application\<close>

text \<open>
  A shallow embedding of the database functions of \<^verbatim>\<open>app.py\<close>:
  \<^verbatim>\<open>create_order_db\<close>, \<^verbatim>\<open>complete_order_db\<close>, \<^verbatim>\<open>add_menu_item\<close>,
  \<^verbatim>\<open>update_menu_item\<close>, \<^verbatim>\<open>update_stock\<close>, \<^verbatim>\<open>delete_menu_item\<close>, and of the two
  routes \<^verbatim>\<open>complete_order\<close> and \<^verbatim>\<open>puncher_update_stock\<close>.

  The SQLite file is a record of tables; every function takes the database and returns its
  result together with the database as committed. A Python exception raised before
  \<^verbatim>\<open>conn.commit()\<close> leaves the database as it was (the connection is dropped with its
  transaction open, which SQLite rolls back), so such a run returns the database it was
  given.

  Scope of the model.
  \<^item> Request payloads are typed: a cart line carries the keys \<^verbatim>\<open>id\<close>, \<^verbatim>\<open>name\<close>,
    \<^verbatim>\<open>quantity\<close>, \<^verbatim>\<open>price\<close> (and optionally \<^verbatim>\<open>side_option\<close>) with an integer id and an
    integer quantity; names and totals are not null. The \<^verbatim>\<open>KeyError\<close>, \<^verbatim>\<open>TypeError\<close> and
    constraint failures of an ill-typed JSON body are outside the model.
  \<^item> Integers are Python's unbounded integers (\<open>int\<close>); the \<^verbatim>\<open>OverflowError\<close> of binding a
    value beyond 64 bits is outside the model.
  \<^item> Prices and totals live in \<^verbatim>\<open>REAL\<close> columns. The functions modelled here only store and
    read them back, so they are values of type \<open>real\<close> on which no arithmetic is done.
  \<^item> \<^verbatim>\<open>datetime.now()\<close> is a parameter of the function that reads the clock, in
    microseconds; \<^verbatim>\<open>create_order_db\<close> reads it twice and takes two.
  \<^item> The columns that SQLite fills with \<^verbatim>\<open>CURRENT_TIMESTAMP\<close> by default
    (\<^verbatim>\<open>users.created_at\<close>, \<^verbatim>\<open>menu_items.created_at\<close>, \<^verbatim>\<open>stock_history.timestamp\<close>) are
    left out: no function modelled here reads them.
\<close>

subsection \<open>Tables\<close>

type_synonym timestamp = int

record user_row =
  u_id :: int
  u_username :: string
  u_password :: string
  u_role :: string

record menu_item =
  mi_id :: int
  mi_name :: string
  mi_price :: real
  mi_category :: string
  mi_stock :: int
  mi_requires_side :: int

record order_row =
  o_id :: int
  o_customer_name :: string
  o_total :: real
  o_status :: string
  o_payment_method :: string
  o_timestamp :: timestamp
  o_ready_time :: "timestamp option"
  o_completed_at :: "timestamp option"
  o_cashier_id :: "int option"

record order_item =
  oi_id :: int
  oi_order_id :: int
  oi_menu_item_id :: int
  oi_menu_item_name :: string
  oi_quantity :: int
  oi_price :: real
  oi_side_option :: "string option"

record stock_history_row =
  sh_id :: int
  sh_menu_item_id :: int
  sh_menu_item_name :: string
  sh_quantity_change :: int
  sh_stock_before :: int
  sh_stock_after :: int
  sh_change_type :: string
  sh_notes :: "string option"
  sh_puncher_id :: "int option"

text \<open>
  Every table has an \<^verbatim>\<open>INTEGER PRIMARY KEY AUTOINCREMENT\<close>; the \<open>_seq\<close> fields are the
  rows of \<^verbatim>\<open>sqlite_sequence\<close>, the largest row id each table has ever held.
\<close>

record database =
  users :: "user_row list"
  users_seq :: int
  menu_items :: "menu_item list"
  menu_items_seq :: int
  orders :: "order_row list"
  orders_seq :: int
  order_items :: "order_item list"
  order_items_seq :: int
  stock_history :: "stock_history_row list"
  stock_history_seq :: int

text \<open>
  The row id of an \<^verbatim>\<open>AUTOINCREMENT\<close> insert: one more than the largest of the recorded
  sequence value and the row ids in the table.
\<close>

definition next_rowid :: "int \<Rightarrow> int list \<Rightarrow> int" where
  "next_rowid seq ids = fold max ids seq + 1"

subsection \<open>Requests and responses\<close>

text \<open>One element of the \<^verbatim>\<open>items\<close> list of an order request.\<close>

record cart_item =
  ci_id :: int
  ci_name :: string
  ci_quantity :: int
  ci_price :: real
  ci_side_option :: "string option"

datatype error = TypeError

datatype json_body =
  ErrorBody string
  | OrderBody order_row
  | ItemBody menu_item

text \<open>A Flask response: the body and the status code.\<close>

type_synonym response = "json_body \<times> nat"

type_synonym session = "string \<rightharpoonup> string"

record delete_result =
  success :: bool
  message :: string

subsection \<open>Helpers\<close>

text \<open>Python's \<^verbatim>\<open>str\<close> on an integer, for the f-string \<^verbatim>\<open>f'Order #{order_id}'\<close>.\<close>

fun str_nat :: "nat \<Rightarrow> string" where
  "str_nat n =
     (if n < 10 then [''0123456789'' ! n]
      else str_nat (n div 10) @ [''0123456789'' ! (n mod 10)])"

declare str_nat.simps [simp del]

definition str_int :: "int \<Rightarrow> string" where
  "str_int i = (if i < 0 then CHR ''-'' # str_nat (nat (- i)) else str_nat (nat i))"

definition timedelta_minutes :: "int \<Rightarrow> timestamp" where
  "timedelta_minutes m = m * 60 * 1000000"

definition get_user_id :: "string \<Rightarrow> database \<Rightarrow> int option" where
  "get_user_id username d =
     (case find (\<lambda>u. u_username u = username) (users d) of
        None \<Rightarrow> None
      | Some user \<Rightarrow> Some (u_id user))"

text \<open>\<^verbatim>\<open>SELECT * FROM menu_items WHERE id = ?\<close> with \<^verbatim>\<open>fetchone()\<close>.\<close>

definition select_menu_item :: "int \<Rightarrow> database \<Rightarrow> menu_item option" where
  "select_menu_item item_id d = find (\<lambda>m. mi_id m = item_id) (menu_items d)"

text \<open>\<^verbatim>\<open>SELECT * FROM orders WHERE id = ?\<close> with \<^verbatim>\<open>fetchone()\<close>.\<close>

definition select_order :: "int \<Rightarrow> database \<Rightarrow> order_row option" where
  "select_order order_id d = find (\<lambda>row. o_id row = order_id) (orders d)"

text \<open>The \<^verbatim>\<open>INSERT INTO stock_history\<close> statements.\<close>

definition insert_stock_history ::
  "int \<Rightarrow> string \<Rightarrow> int \<Rightarrow> int \<Rightarrow> int \<Rightarrow> string \<Rightarrow> int option \<Rightarrow> string option
     \<Rightarrow> database \<Rightarrow> database" where
  "insert_stock_history item_id name quantity_change stock_before stock_after change_type
       puncher_id notes d =
     (let rowid = next_rowid (stock_history_seq d) (map sh_id (stock_history d))
      in d\<lparr>stock_history := stock_history d @
             [\<lparr>sh_id = rowid, sh_menu_item_id = item_id, sh_menu_item_name = name,
               sh_quantity_change = quantity_change, sh_stock_before = stock_before,
               sh_stock_after = stock_after, sh_change_type = change_type,
               sh_notes = notes, sh_puncher_id = puncher_id\<rparr>],
           stock_history_seq := rowid\<rparr>)"

subsection \<open>Initialisation\<close>

text \<open>A new database file, after the \<^verbatim>\<open>CREATE TABLE IF NOT EXISTS\<close> statements.\<close>

definition empty_database :: database where
  "empty_database =
     \<lparr>users = [], users_seq = 0, menu_items = [], menu_items_seq = 0, orders = [],
      orders_seq = 0, order_items = [], order_items_seq = 0, stock_history = [],
      stock_history_seq = 0\<rparr>"

definition insert_user :: "string \<times> string \<times> string \<Rightarrow> database \<Rightarrow> database" where
  "insert_user row d =
     (case row of (username, password, role) \<Rightarrow>
        (let rowid = next_rowid (users_seq d) (map u_id (users d))
         in d\<lparr>users := users d @
                [\<lparr>u_id = rowid, u_username = username, u_password = password,
                  u_role = role\<rparr>],
              users_seq := rowid\<rparr>))"

definition insert_menu_item ::
  "string \<times> real \<times> string \<times> int \<times> int \<Rightarrow> database \<Rightarrow> database" where
  "insert_menu_item row d =
     (case row of (name, price, category, stock, requires_side) \<Rightarrow>
        (let rowid = next_rowid (menu_items_seq d) (map mi_id (menu_items d))
         in d\<lparr>menu_items := menu_items d @
                [\<lparr>mi_id = rowid, mi_name = name, mi_price = price, mi_category = category,
                  mi_stock = stock, mi_requires_side = requires_side\<rparr>],
              menu_items_seq := rowid\<rparr>))"

definition default_users :: "(string \<times> string \<times> string) list" where
  "default_users =
     [(''cashier'', ''cash123'', ''cashier''),
      (''kitchen'', ''cook123'', ''kitchen''),
      (''admin'', ''admin123'', ''admin''),
      (''puncher'', ''stock123'', ''puncher'')]"

definition default_menu :: "(string \<times> real \<times> string \<times> int \<times> int) list" where
  "default_menu =
     [(''Boiled Beef'', 120, ''Meat'', 50, 1),
      (''Usu'', 100, ''Meat'', 40, 1),
      (''Fried Liver (Isibindi)'', 95, ''Meat'', 45, 1),
      (''Fried Thumbu'', 90, ''Meat'', 35, 1),
      (''Braaied Beef'', 130, ''Meat'', 40, 1),
      (''Braaied Pork'', 125, ''Meat'', 35, 1),
      (''Braaied Wors'', 80, ''Meat'', 50, 1),
      (''Inqina'', 95, ''Meat'', 30, 1),
      (''Fried Inhliziyo'', 105, ''Meat'', 30, 1),
      (''Uphuthu'', 20, ''Sides'', 100, 0),
      (''Jeqe'', 30, ''Sides'', 100, 0),
      (''Chakalaka'', 20, ''Sides'', 80, 0),
      (''Salad'', 30, ''Sides'', 50, 0),
      (''Soft Drink'', 15, ''Drinks'', 120, 0),
      (''Beer'', 25, ''Drinks'', 90, 0)]"

text \<open>\<^verbatim>\<open>init_db()\<close>, which runs when the module is loaded.\<close>

definition init_db :: "database \<Rightarrow> database" where
  "init_db d =
     (let d1 = (if length (users d) = 0 then fold insert_user default_users d else d);
          d2 = (if length (filter (\<lambda>u. u_role u = ''puncher'') (users d1)) = 0
                then insert_user (''puncher'', ''stock123'', ''puncher'') d1 else d1)
      in if length (menu_items d2) = 0 then fold insert_menu_item default_menu d2 else d2)"

subsection \<open>Order engine\<close>

text \<open>
  The body of the loop \<^verbatim>\<open>for item in items\<close> of \<^verbatim>\<open>create_order_db\<close>, on the database of
  the open transaction: insert the order line, read the stock of the item (a missing row
  makes \<^verbatim>\<open>current['stock']\<close> raise \<^verbatim>\<open>TypeError\<close>), subtract the quantity in SQL, log the
  change. There is no comparison of the quantity with the stock.
\<close>

fun order_lines :: "int \<Rightarrow> cart_item list \<Rightarrow> database \<Rightarrow> error + database" where
  "order_lines order_id [] d = Inr d"
| "order_lines order_id (item # items) d =
     (let side_option = ci_side_option item;
          final_price = ci_price item;
          line_id = next_rowid (order_items_seq d) (map oi_id (order_items d));
          d1 = d\<lparr>order_items := order_items d @
                  [\<lparr>oi_id = line_id, oi_order_id = order_id, oi_menu_item_id = ci_id item,
                    oi_menu_item_name = ci_name item, oi_quantity = ci_quantity item,
                    oi_price = final_price, oi_side_option = side_option\<rparr>],
                order_items_seq := line_id\<rparr>
      in case select_menu_item (ci_id item) d1 of
           None \<Rightarrow> Inl TypeError
         | Some current \<Rightarrow>
             (let stock_before = mi_stock current;
                  stock_after = stock_before - ci_quantity item;
                  d2 = d1\<lparr>menu_items :=
                          map (\<lambda>m. if mi_id m = ci_id item
                                    then m\<lparr>mi_stock := mi_stock m - ci_quantity item\<rparr> else m)
                              (menu_items d1)\<rparr>;
                  d3 = insert_stock_history (ci_id item) (ci_name item) (- ci_quantity item)
                         stock_before stock_after ''sale'' None
                         (Some (''Order #'' @ str_int order_id)) d2
              in order_lines order_id items d3))"

text \<open>
  \<^verbatim>\<open>create_order_db(customer_name, items, total, cashier_username, payment_method)\<close>;
  \<open>total_amount\<close> is the parameter \<^verbatim>\<open>total\<close>, \<open>now1\<close> and \<open>now2\<close> are the two readings of \<^verbatim>\<open>datetime.now()\<close>. The final
  \<^verbatim>\<open>dict(order)\<close> runs after the commit.
\<close>

definition create_order_db ::
  "string \<Rightarrow> cart_item list \<Rightarrow> real \<Rightarrow> string \<Rightarrow> string \<Rightarrow> timestamp \<Rightarrow> timestamp
     \<Rightarrow> database \<Rightarrow> (error + order_row) \<times> database" where
  "create_order_db customer_name items total_amount cashier_username payment_method now1 now2 d =
     (let cashier_id = get_user_id cashier_username d;
          order_id = next_rowid (orders_seq d) (map o_id (orders d));
          d1 = d\<lparr>orders := orders d @
                  [\<lparr>o_id = order_id, o_customer_name = customer_name, o_total = total_amount,
                    o_status = ''pending'', o_payment_method = payment_method,
                    o_timestamp = now1, o_ready_time = Some (now2 + timedelta_minutes 15),
                    o_completed_at = None, o_cashier_id = cashier_id\<rparr>],
                orders_seq := order_id\<rparr>
      in case order_lines order_id items d1 of
           Inl e \<Rightarrow> (Inl e, d)
         | Inr d2 \<Rightarrow>
             (case select_order order_id d2 of
                None \<Rightarrow> (Inl TypeError, d2)
              | Some order \<Rightarrow> (Inr order, d2)))"

text \<open>\<^verbatim>\<open>complete_order_db(order_id)\<close>; \<open>now\<close> is the reading of \<^verbatim>\<open>datetime.now()\<close>.\<close>

definition complete_order_db :: "int \<Rightarrow> timestamp \<Rightarrow> database \<Rightarrow> order_row option \<times> database" where
  "complete_order_db order_id now d =
     (let d1 = d\<lparr>orders :=
                  map (\<lambda>row. if o_id row = order_id
                              then row\<lparr>o_status := ''ready'', o_completed_at := Some now\<rparr>
                              else row)
                      (orders d)\<rparr>
      in (select_order order_id d1, d1))"

text \<open>The route \<^verbatim>\<open>PUT /api/orders/<order_id>/complete\<close>.\<close>

definition complete_order :: "session \<Rightarrow> int \<Rightarrow> timestamp \<Rightarrow> database \<Rightarrow> response \<times> database" where
  "complete_order sess order_id now d =
     (if sess ''username'' = None then ((ErrorBody ''Unauthorized'', 401), d)
      else if sess ''role'' = Some ''kitchen'' then
        (case complete_order_db order_id now d of
           (Some order, d1) \<Rightarrow> ((OrderBody order, 200), d1)
         | (None, d1) \<Rightarrow> ((ErrorBody ''Order not found'', 404), d1))
      else ((ErrorBody ''Unauthorized'', 401), d))"

subsection \<open>Inventory manager\<close>

text \<open>\<^verbatim>\<open>add_menu_item(name, price, category, stock, requires_side, puncher_username)\<close>.\<close>

definition add_menu_item ::
  "string \<Rightarrow> real \<Rightarrow> string \<Rightarrow> int \<Rightarrow> int \<Rightarrow> string \<Rightarrow> database
     \<Rightarrow> menu_item option \<times> database" where
  "add_menu_item name price category stock requires_side puncher_username d =
     (let puncher_id = get_user_id puncher_username d;
          item_id = next_rowid (menu_items_seq d) (map mi_id (menu_items d));
          d1 = d\<lparr>menu_items := menu_items d @
                  [\<lparr>mi_id = item_id, mi_name = name, mi_price = price,
                    mi_category = category, mi_stock = stock,
                    mi_requires_side = requires_side\<rparr>],
                menu_items_seq := item_id\<rparr>;
          d2 = insert_stock_history item_id name stock 0 stock ''initial'' puncher_id
                 (Some ''Initial stock'') d1
      in (select_menu_item item_id d2, d2))"

text \<open>\<^verbatim>\<open>update_menu_item(item_id, name, price, category, requires_side, puncher_username)\<close>.\<close>

definition update_menu_item ::
  "int \<Rightarrow> string \<Rightarrow> real \<Rightarrow> string \<Rightarrow> int \<Rightarrow> string \<Rightarrow> database
     \<Rightarrow> menu_item option \<times> database" where
  "update_menu_item item_id name price category requires_side puncher_username d =
     (let d1 = d\<lparr>menu_items :=
                  map (\<lambda>m. if mi_id m = item_id
                            then m\<lparr>mi_name := name, mi_price := price,
                                   mi_category := category,
                                   mi_requires_side := requires_side\<rparr>
                            else m)
                      (menu_items d)\<rparr>
      in (select_menu_item item_id d1, d1))"

text \<open>\<^verbatim>\<open>update_stock(item_id, quantity_change, puncher_username, notes)\<close>.\<close>

definition update_stock ::
  "int \<Rightarrow> int \<Rightarrow> string \<Rightarrow> string \<Rightarrow> database \<Rightarrow> menu_item option \<times> database" where
  "update_stock item_id quantity_change puncher_username notes d =
     (let puncher_id = get_user_id puncher_username d
      in case select_menu_item item_id d of
           None \<Rightarrow> (None, d)
         | Some item \<Rightarrow>
             (let stock_before = mi_stock item;
                  stock_after = stock_before + quantity_change
              in if stock_after < 0 then (None, d)
                 else
                   (let d1 = d\<lparr>menu_items :=
                                map (\<lambda>m. if mi_id m = item_id
                                          then m\<lparr>mi_stock := stock_after\<rparr> else m)
                                    (menu_items d)\<rparr>;
                        change_type =
                          (if quantity_change > 0 then ''restock'' else ''adjustment'');
                        d2 = insert_stock_history item_id (mi_name item) quantity_change
                               stock_before stock_after change_type puncher_id (Some notes) d1
                    in (select_menu_item item_id d2, d2))))"

text \<open>\<^verbatim>\<open>delete_menu_item(item_id)\<close>.\<close>

definition delete_menu_item :: "int \<Rightarrow> database \<Rightarrow> delete_result \<times> database" where
  "delete_menu_item item_id d =
     (let orders_count = length (filter (\<lambda>oi. oi_menu_item_id oi = item_id) (order_items d))
      in if orders_count > 0
         then (\<lparr>success = False,
                message = ''Cannot delete item that has been used in orders''\<rparr>, d)
         else (\<lparr>success = True, message = ''Item deleted successfully''\<rparr>,
               d\<lparr>menu_items := filter (\<lambda>m. mi_id m \<noteq> item_id) (menu_items d),
                 stock_history :=
                   filter (\<lambda>h. sh_menu_item_id h \<noteq> item_id) (stock_history d)\<rparr>))"

text \<open>
  The route \<^verbatim>\<open>PUT /api/puncher/stock/<item_id>\<close>. \<open>quantityChange\<close> is
  \<^verbatim>\<open>data.get('quantityChange')\<close> (\<open>None\<close> when the key is absent) and \<open>notes\<close> is
  \<^verbatim>\<open>data.get('notes', '')\<close>.
\<close>

definition puncher_update_stock ::
  "session \<Rightarrow> int \<Rightarrow> int option \<Rightarrow> string \<Rightarrow> database \<Rightarrow> response \<times> database" where
  "puncher_update_stock sess item_id quantityChange notes d =
     (case sess ''username'' of
        None \<Rightarrow> ((ErrorBody ''Unauthorized'', 401), d)
      | Some username \<Rightarrow>
          if sess ''role'' = Some ''puncher'' then
            (case quantityChange of
               None \<Rightarrow> ((ErrorBody ''Missing quantity change'', 400), d)
             | Some quantity_change \<Rightarrow>
                 (case update_stock item_id quantity_change username notes d of
                    (Some item, d1) \<Rightarrow> ((ItemBody item, 200), d1)
                  | (None, d1) \<Rightarrow>
                      ((ErrorBody ''Failed to update stock. Stock cannot be negative.'', 400),
                       d1)))
          else ((ErrorBody ''Unauthorized'', 401), d))"

subsection \<open>Vocabulary of the properties\<close>

text \<open>A stock-history row whose three stock columns agree.\<close>

definition ledger_entry_consistent :: "stock_history_row \<Rightarrow> bool" where
  "ledger_entry_consistent h \<longleftrightarrow> sh_stock_after h = sh_stock_before h + sh_quantity_change h"

text \<open>The total quantity a cart orders of one item (a cart may name an item twice).\<close>

definition ordered_quantity :: "int \<Rightarrow> cart_item list \<Rightarrow> int" where
  "ordered_quantity item_id items =
     sum_list (map ci_quantity (filter (\<lambda>i. ci_id i = item_id) items))"

text \<open>The order line written for a cart line: every column but the row id.\<close>

definition line_for :: "int \<Rightarrow> cart_item \<Rightarrow> order_item \<Rightarrow> bool" where
  "line_for order_id item row \<longleftrightarrow>
     oi_order_id row = order_id \<and> oi_menu_item_id row = ci_id item \<and>
     oi_menu_item_name row = ci_name item \<and> oi_quantity row = ci_quantity item \<and>
     oi_price row = ci_price item \<and> oi_side_option row = ci_side_option item"

text \<open>
  The stock-history row written for a cart line, as far as the cart line and the order id
  determine it.
\<close>

definition sale_entry_for :: "int \<Rightarrow> cart_item \<Rightarrow> stock_history_row \<Rightarrow> bool" where
  "sale_entry_for order_id item row \<longleftrightarrow>
     sh_menu_item_id row = ci_id item \<and> sh_menu_item_name row = ci_name item \<and>
     sh_quantity_change row = - ci_quantity item \<and> sh_change_type row = ''sale'' \<and>
     sh_notes row = Some (''Order #'' @ str_int order_id) \<and> sh_puncher_id row = None"

text \<open>
  One round of the loop of \<^verbatim>\<open>create_order_db\<close> for a line whose item exists, with the
  \<open>let\<close>s of \<open>order_lines\<close> unfolded (\<open>order_lines_Cons\<close> below).
\<close>

definition order_line_step :: "int \<Rightarrow> cart_item \<Rightarrow> menu_item \<Rightarrow> database \<Rightarrow> database" where
  "order_line_step order_id item current d =
     insert_stock_history (ci_id item) (ci_name item) (- ci_quantity item) (mi_stock current)
       (mi_stock current - ci_quantity item) ''sale'' None
       (Some (''Order #'' @ str_int order_id))
       (d\<lparr>order_items := order_items d @
             [\<lparr>oi_id = next_rowid (order_items_seq d) (map oi_id (order_items d)),
               oi_order_id = order_id, oi_menu_item_id = ci_id item,
               oi_menu_item_name = ci_name item, oi_quantity = ci_quantity item,
               oi_price = ci_price item, oi_side_option = ci_side_option item\<rparr>],
           order_items_seq := next_rowid (order_items_seq d) (map oi_id (order_items d)),
           menu_items :=
             map (\<lambda>m. if mi_id m = ci_id item
                       then m\<lparr>mi_stock := mi_stock m - ci_quantity item\<rparr> else m)
                 (menu_items d)\<rparr>)"

section \<open>Properties\<close>

subsection \<open>Reading and writing rows\<close>

lemma find_map_same_key:
  "(\<And>x. P (f x) = P x) \<Longrightarrow> find P (map f xs) = map_option f (find P xs)"
  by (induction xs) auto

lemma map_if_none_matches:
  "find P xs = None \<Longrightarrow> map (\<lambda>x. if P x then f x else x) xs = xs"
  by (induction xs) (auto split: if_splits)

lemma insert_stock_history_frame [simp]:
  "users (insert_stock_history i n q b a c p t d) = users d"
  "users_seq (insert_stock_history i n q b a c p t d) = users_seq d"
  "menu_items (insert_stock_history i n q b a c p t d) = menu_items d"
  "menu_items_seq (insert_stock_history i n q b a c p t d) = menu_items_seq d"
  "orders (insert_stock_history i n q b a c p t d) = orders d"
  "orders_seq (insert_stock_history i n q b a c p t d) = orders_seq d"
  "order_items (insert_stock_history i n q b a c p t d) = order_items d"
  "order_items_seq (insert_stock_history i n q b a c p t d) = order_items_seq d"
  by (simp_all add: insert_stock_history_def Let_def)

lemma insert_stock_history_rows:
  "stock_history (insert_stock_history i n q b a c p t d) =
     stock_history d @
       [\<lparr>sh_id = next_rowid (stock_history_seq d) (map sh_id (stock_history d)),
         sh_menu_item_id = i, sh_menu_item_name = n, sh_quantity_change = q,
         sh_stock_before = b, sh_stock_after = a, sh_change_type = c, sh_notes = t,
         sh_puncher_id = p\<rparr>]"
  by (simp add: insert_stock_history_def Let_def)

lemma select_menu_item_insert_stock_history [simp]:
  "select_menu_item k (insert_stock_history i n q b a c p t d) = select_menu_item k d"
  by (simp add: select_menu_item_def)

lemma select_after_stock_update:
  "select_menu_item item_id
     (d\<lparr>menu_items :=
          map (\<lambda>m. if mi_id m = item_id then m\<lparr>mi_stock := s\<rparr> else m) (menu_items d)\<rparr>) =
   map_option (\<lambda>m. m\<lparr>mi_stock := s\<rparr>) (select_menu_item item_id d)"
proof -
  have "find (\<lambda>m. mi_id m = item_id)
          (map (\<lambda>m. if mi_id m = item_id then m\<lparr>mi_stock := s\<rparr> else m) xs) =
        map_option (\<lambda>m. m\<lparr>mi_stock := s\<rparr>) (find (\<lambda>m. mi_id m = item_id) xs)"
    for xs :: "menu_item list"
    by (induction xs) auto
  then show ?thesis by (simp add: select_menu_item_def)
qed

text \<open>The database that \<^verbatim>\<open>init_db\<close> leaves in a new file is the one the examples run on.\<close>

lemmas init_db_defs =
  init_db_def empty_database_def default_users_def default_menu_def insert_user_def
  insert_menu_item_def next_rowid_def

subsection \<open>Stock adjustment\<close>

text \<open>What \<^verbatim>\<open>update_stock\<close> returns for an item that exists.\<close>

lemma update_stock_existing:
  assumes "select_menu_item item_id d = Some item"
  shows "update_stock item_id delta u n d =
     (if mi_stock item + delta < 0 then (None, d)
      else (Some (item\<lparr>mi_stock := mi_stock item + delta\<rparr>),
            insert_stock_history item_id (mi_name item) delta (mi_stock item)
              (mi_stock item + delta) (if delta > 0 then ''restock'' else ''adjustment'')
              (get_user_id u d) (Some n)
              (d\<lparr>menu_items := map (\<lambda>m. if mi_id m = item_id
                                         then m\<lparr>mi_stock := mi_stock item + delta\<rparr> else m)
                                   (menu_items d)\<rparr>)))"
  using assms
  by (simp add: update_stock_def Let_def select_after_stock_update)

text \<open>
  C5. For an item that exists and any delta, \<^verbatim>\<open>update_stock\<close> rejects (returns \<open>None\<close>)
  exactly when the stock it read plus the delta is negative, and a rejected call returns the
  database it was given: the stock is unchanged and no stock-history row is appended.
\<close>

theorem update_stock_rejects_iff_underflow:
  assumes "select_menu_item item_id d = Some item"
  shows "(fst (update_stock item_id delta u n d) = None \<longleftrightarrow> mi_stock item + delta < 0) \<and>
         (fst (update_stock item_id delta u n d) = None \<longrightarrow>
            snd (update_stock item_id delta u n d) = d)"
  by (simp add: update_stock_existing [OF assms])

text \<open>The scenario of the specification: minus 60 on the 50 Braaied Wors of a new database.\<close>

theorem update_stock_rejects_iff_underflow_witness:
  "select_menu_item 7 (init_db empty_database) =
     Some \<lparr>mi_id = 7, mi_name = ''Braaied Wors'', mi_price = 80, mi_category = ''Meat'',
           mi_stock = 50, mi_requires_side = 1\<rparr> \<and>
   update_stock 7 (- 60) ''puncher'' ''spoiled'' (init_db empty_database) =
     (None, init_db empty_database)"
proof -
  have h: "select_menu_item 7 (init_db empty_database) =
     Some \<lparr>mi_id = 7, mi_name = ''Braaied Wors'', mi_price = 80, mi_category = ''Meat'',
           mi_stock = 50, mi_requires_side = 1\<rparr>"
    by (simp add: init_db_defs select_menu_item_def)
  from update_stock_rejects_iff_underflow [OF h, of "- 60" "''puncher''" "''spoiled''"] h
  show ?thesis by (simp add: prod_eq_iff)
qed

text \<open>
  Writing back the stock that was read changes no row, when ids are unique (the primary key).
\<close>

lemma stock_write_same:
  "distinct (map mi_id xs) \<Longrightarrow> find (\<lambda>m. mi_id m = k) xs = Some item \<Longrightarrow>
   map (\<lambda>m. if mi_id m = k then m\<lparr>mi_stock := mi_stock item\<rparr> else m) xs = xs"
proof (induction xs)
  case Nil
  then show ?case by simp
next
  case (Cons a xs)
  show ?case
  proof (cases "mi_id a = k")
    case True
    with Cons.prems have item: "item = a" and fresh: "k \<notin> mi_id ` set xs" by auto
    from fresh have "map (\<lambda>m. if mi_id m = k then m\<lparr>mi_stock := mi_stock item\<rparr> else m) xs = xs"
      by (intro map_idI) auto
    with True item show ?thesis by simp
  next
    case False
    with Cons show ?thesis by simp
  qed
qed

text \<open>
  C6, as amended. On every successful \<^verbatim>\<open>update_stock\<close> call exactly one stock-history
  row is appended, for that item and with the delta as its quantity change, and its change
  type is \<open>restock\<close> if the delta is positive and \<open>adjustment\<close> otherwise. A delta of
  zero on an existing item whose stock is not negative (ids being unique, as the primary key
  makes them) is accepted: the call returns the item as it was, the menu is unchanged, and
  the only change to the database is one appended row with quantity change 0 and change type
  \<open>adjustment\<close>. The condition on the stock is needed: the guard \<^verbatim>\<open>stock_after < 0\<close>
  looks at the sum only, so on a negative stock a delta of zero is rejected like any other
  delta that leaves the sum negative (the theorem after the next).
\<close>

theorem update_stock_change_type:
  "(update_stock item_id delta u n d = (Some item', d') \<longrightarrow>
      (\<exists>row. stock_history d' = stock_history d @ [row] \<and>
             sh_menu_item_id row = item_id \<and> sh_quantity_change row = delta \<and>
             sh_change_type row = (if 0 < delta then ''restock'' else ''adjustment''))) \<and>
   (select_menu_item item_id d = Some item \<and> 0 \<le> mi_stock item \<and>
    distinct (map mi_id (menu_items d)) \<longrightarrow>
      (\<exists>row. update_stock item_id 0 u n d =
               (Some item, d\<lparr>stock_history := stock_history d @ [row],
                             stock_history_seq := sh_id row\<rparr>) \<and>
             sh_menu_item_id row = item_id \<and> sh_quantity_change row = 0 \<and>
             sh_stock_before row = mi_stock item \<and> sh_stock_after row = mi_stock item \<and>
             sh_change_type row = ''adjustment''))"
proof (intro conjI impI)
  assume ok: "update_stock item_id delta u n d = (Some item', d')"
  then obtain it where it: "select_menu_item item_id d = Some it"
    by (cases "select_menu_item item_id d") (auto simp: update_stock_def)
  from ok show "\<exists>row. stock_history d' = stock_history d @ [row] \<and>
             sh_menu_item_id row = item_id \<and> sh_quantity_change row = delta \<and>
             sh_change_type row = (if 0 < delta then ''restock'' else ''adjustment'')"
    unfolding update_stock_existing [OF it]
    by (auto simp: insert_stock_history_rows split: if_splits)
next
  assume "select_menu_item item_id d = Some item \<and> 0 \<le> mi_stock item \<and>
    distinct (map mi_id (menu_items d))"
  then have it: "select_menu_item item_id d = Some item" and nonneg: "0 \<le> mi_stock item"
    and pk: "distinct (map mi_id (menu_items d))" by simp_all
  from it pk have same:
    "map (\<lambda>m. if mi_id m = item_id then m\<lparr>mi_stock := mi_stock item\<rparr> else m) (menu_items d) =
     menu_items d"
    by (simp add: select_menu_item_def stock_write_same)
  let ?row = "\<lparr>sh_id = next_rowid (stock_history_seq d) (map sh_id (stock_history d)),
         sh_menu_item_id = item_id, sh_menu_item_name = mi_name item, sh_quantity_change = 0,
         sh_stock_before = mi_stock item, sh_stock_after = mi_stock item,
         sh_change_type = ''adjustment'', sh_notes = Some n,
         sh_puncher_id = get_user_id u d\<rparr>"
  have "update_stock item_id 0 u n d =
               (Some item, d\<lparr>stock_history := stock_history d @ [?row],
                             stock_history_seq := sh_id ?row\<rparr>)"
    using nonneg
    by (simp add: update_stock_existing [OF it] same insert_stock_history_def Let_def
        cong: if_cong)
  then show "\<exists>row. update_stock item_id 0 u n d =
               (Some item, d\<lparr>stock_history := stock_history d @ [row],
                             stock_history_seq := sh_id row\<rparr>) \<and>
             sh_menu_item_id row = item_id \<and> sh_quantity_change row = 0 \<and>
             sh_stock_before row = mi_stock item \<and> sh_stock_after row = mi_stock item \<and>
             sh_change_type row = ''adjustment''"
    by (intro exI [of _ ?row]) simp
qed

text \<open>
  The scenario of the specification (a delivery of 20, logged as a restock) and a delta of 0,
  on the Braaied Wors of a new database.
\<close>

theorem update_stock_change_type_witness:
  "update_stock 7 20 ''puncher'' ''weekly delivery'' (init_db empty_database) =
     (Some \<lparr>mi_id = 7, mi_name = ''Braaied Wors'', mi_price = 80, mi_category = ''Meat'',
            mi_stock = 70, mi_requires_side = 1\<rparr>,
      snd (update_stock 7 20 ''puncher'' ''weekly delivery'' (init_db empty_database))) \<and>
   (\<exists>row. stock_history (snd (update_stock 7 20 ''puncher'' ''weekly delivery''
                                 (init_db empty_database))) =
            stock_history (init_db empty_database) @ [row] \<and>
          sh_menu_item_id row = 7 \<and> sh_quantity_change row = 20 \<and>
          sh_change_type row = ''restock'') \<and>
   select_menu_item 7 (init_db empty_database) =
     Some \<lparr>mi_id = 7, mi_name = ''Braaied Wors'', mi_price = 80, mi_category = ''Meat'',
           mi_stock = 50, mi_requires_side = 1\<rparr> \<and>
   distinct (map mi_id (menu_items (init_db empty_database))) \<and>
   (\<exists>row. update_stock 7 0 ''puncher'' ''count'' (init_db empty_database) =
            (Some \<lparr>mi_id = 7, mi_name = ''Braaied Wors'', mi_price = 80,
                   mi_category = ''Meat'', mi_stock = 50, mi_requires_side = 1\<rparr>,
             (init_db empty_database)\<lparr>stock_history := [row], stock_history_seq := sh_id row\<rparr>) \<and>
          sh_quantity_change row = 0 \<and> sh_change_type row = ''adjustment'')"
proof -
  let ?d = "init_db empty_database"
  let ?wors = "\<lparr>mi_id = 7, mi_name = ''Braaied Wors'', mi_price = 80, mi_category = ''Meat'',
           mi_stock = 50, mi_requires_side = 1\<rparr>"
  have h: "select_menu_item 7 ?d = Some ?wors"
    by (simp add: init_db_defs select_menu_item_def)
  have pk: "distinct (map mi_id (menu_items ?d))"
    by (simp add: init_db_defs)
  have hist: "stock_history ?d = []"
    by (simp add: init_db_defs)
  have ok: "update_stock 7 20 ''puncher'' ''weekly delivery'' ?d =
     (Some (?wors\<lparr>mi_stock := 70\<rparr>), snd (update_stock 7 20 ''puncher'' ''weekly delivery'' ?d))"
    by (simp add: update_stock_existing [OF h])
  note inst = update_stock_change_type [of 7 _ "''puncher''" _ ?d _ _ ?wors]
  from inst [of 20 "''weekly delivery''"] ok
  have a: "\<exists>row. stock_history (snd (update_stock 7 20 ''puncher'' ''weekly delivery'' ?d)) =
            stock_history ?d @ [row] \<and>
          sh_menu_item_id row = 7 \<and> sh_quantity_change row = 20 \<and>
          sh_change_type row = ''restock''"
    by simp
  from inst [of 0 "''count''"] h pk
  have b: "\<exists>row. update_stock 7 0 ''puncher'' ''count'' ?d =
            (Some ?wors, ?d\<lparr>stock_history := [row], stock_history_seq := sh_id row\<rparr>) \<and>
          sh_quantity_change row = 0 \<and> sh_change_type row = ''adjustment''"
    by (simp add: hist) blast
  from ok a h pk b show ?thesis by simp
qed

text \<open>
  C6 as first stated, a delta of zero being accepted on any existing item, does not hold.
  After an order for 60 Braaied Wors on a new database the stock is minus 10, and
  \<^verbatim>\<open>update_stock\<close> with delta 0 on that item returns \<open>None\<close> and appends no row.
\<close>

theorem update_stock_zero_delta_rejected_on_negative_stock:
  "(let d = snd (create_order_db ''Thabo''
               [\<lparr>ci_id = 7, ci_name = ''Braaied Wors'', ci_quantity = 60, ci_price = 100,
                 ci_side_option = Some ''Uphuthu''\<rparr>]
               6000 ''cashier'' ''cash'' 1000 1001 (init_db empty_database))
    in select_menu_item 7 d =
         Some \<lparr>mi_id = 7, mi_name = ''Braaied Wors'', mi_price = 80, mi_category = ''Meat'',
               mi_stock = - 10, mi_requires_side = 1\<rparr> \<and>
       update_stock 7 0 ''puncher'' ''count'' d = (None, d))"
proof -
  let ?d = "snd (create_order_db ''Thabo''
               [\<lparr>ci_id = 7, ci_name = ''Braaied Wors'', ci_quantity = 60, ci_price = 100,
                 ci_side_option = Some ''Uphuthu''\<rparr>]
               6000 ''cashier'' ''cash'' 1000 1001 (init_db empty_database))"
  have sold: "select_menu_item 7 ?d =
         Some \<lparr>mi_id = 7, mi_name = ''Braaied Wors'', mi_price = 80, mi_category = ''Meat'',
               mi_stock = - 10, mi_requires_side = 1\<rparr>"
    by (simp add: create_order_db_def order_lines.simps(2) init_db_defs select_menu_item_def
        select_order_def get_user_id_def insert_stock_history_def timedelta_minutes_def Let_def)
  have "update_stock 7 0 ''puncher'' ''count'' ?d = (None, ?d)"
    by (simp add: update_stock_existing [OF sold])
  with sold show ?thesis unfolding Let_def by blast
qed

subsection \<open>Completing an order\<close>

lemma select_order_after_complete:
  "find (\<lambda>row. o_id row = order_id)
     (map (\<lambda>row. if o_id row = order_id
                 then row\<lparr>o_status := ''ready'', o_completed_at := Some now\<rparr> else row) xs) =
   map_option (\<lambda>row. row\<lparr>o_status := ''ready'', o_completed_at := Some now\<rparr>)
     (find (\<lambda>row. o_id row = order_id) xs)"
  by (induction xs) auto

lemma complete_order_db_result:
  "fst (complete_order_db order_id now d) =
     map_option (\<lambda>row. row\<lparr>o_status := ''ready'', o_completed_at := Some now\<rparr>)
       (select_order order_id d)"
  by (simp add: complete_order_db_def select_order_def select_order_after_complete Let_def)

lemma complete_order_db_select:
  "select_order order_id (snd (complete_order_db order_id now d)) =
     fst (complete_order_db order_id now d)"
  by (simp add: complete_order_db_def Let_def)

lemma complete_order_db_unknown:
  assumes "select_order order_id d = None"
  shows "complete_order_db order_id now d = (None, d)"
proof -
  from assms have "map (\<lambda>row. if o_id row = order_id
                 then row\<lparr>o_status := ''ready'', o_completed_at := Some now\<rparr> else row) (orders d)
      = orders d"
    unfolding select_order_def by (rule map_if_none_matches)
  with assms show ?thesis
    by (simp add: complete_order_db_def select_order_def Let_def)
qed

text \<open>
  C7. \<^verbatim>\<open>complete_order_db\<close> on an order that exists, whatever its status, returns and
  stores the order with status \<open>ready\<close> and \<open>completed_at\<close> set to the clock reading; a
  second call on the result succeeds as well and stamps the later reading. When no order has
  the id it returns \<open>None\<close> and the database it was given, and the route answers 404
  with \<open>Order not found\<close>.
\<close>

theorem complete_order_db_sets_ready:
  "(select_order order_id d = Some row \<longrightarrow>
      fst (complete_order_db order_id now d) =
        Some (row\<lparr>o_status := ''ready'', o_completed_at := Some now\<rparr>) \<and>
      select_order order_id (snd (complete_order_db order_id now d)) =
        Some (row\<lparr>o_status := ''ready'', o_completed_at := Some now\<rparr>) \<and>
      fst (complete_order_db order_id later (snd (complete_order_db order_id now d))) =
        Some (row\<lparr>o_status := ''ready'', o_completed_at := Some later\<rparr>)) \<and>
   (select_order order_id d = None \<longrightarrow>
      complete_order_db order_id now d = (None, d) \<and>
      (sess ''username'' = Some user \<and> sess ''role'' = Some ''kitchen'' \<longrightarrow>
         complete_order sess order_id now d = ((ErrorBody ''Order not found'', 404), d)))"
proof (intro conjI impI)
  assume found: "select_order order_id d = Some row"
  then show first: "fst (complete_order_db order_id now d) =
        Some (row\<lparr>o_status := ''ready'', o_completed_at := Some now\<rparr>)"
    by (simp add: complete_order_db_result)
  then show again: "select_order order_id (snd (complete_order_db order_id now d)) =
        Some (row\<lparr>o_status := ''ready'', o_completed_at := Some now\<rparr>)"
    by (simp add: complete_order_db_select)
  then show "fst (complete_order_db order_id later (snd (complete_order_db order_id now d))) =
        Some (row\<lparr>o_status := ''ready'', o_completed_at := Some later\<rparr>)"
    by (simp add: complete_order_db_result)
next
  assume missing: "select_order order_id d = None"
  then show unchanged: "complete_order_db order_id now d = (None, d)"
    by (rule complete_order_db_unknown)
  assume "sess ''username'' = Some user \<and> sess ''role'' = Some ''kitchen''"
  with unchanged
  show "complete_order sess order_id now d = ((ErrorBody ''Order not found'', 404), d)"
    by (simp add: complete_order_def)
qed


text \<open>An order for three Braaied Wors on a new database, completed twice; and no order at all.\<close>

theorem complete_order_db_sets_ready_witness:
  "(let d1 = snd (create_order_db ''Thabo''
                [\<lparr>ci_id = 7, ci_name = ''Braaied Wors'', ci_quantity = 3, ci_price = 100,
                  ci_side_option = Some ''Uphuthu''\<rparr>]
                300 ''cashier'' ''cash'' 1000 1001 (init_db empty_database));
        placed = \<lparr>o_id = 1, o_customer_name = ''Thabo'', o_total = 300,
                  o_status = ''pending'', o_payment_method = ''cash'', o_timestamp = 1000,
                  o_ready_time = Some 900001001, o_completed_at = None,
                  o_cashier_id = Some 1\<rparr>
    in select_order 1 d1 = Some placed \<and>
       fst (complete_order_db 1 5000 d1) =
         Some (placed\<lparr>o_status := ''ready'', o_completed_at := Some 5000\<rparr>) \<and>
       fst (complete_order_db 1 7000 (snd (complete_order_db 1 5000 d1))) =
         Some (placed\<lparr>o_status := ''ready'', o_completed_at := Some 7000\<rparr>)) \<and>
   select_order 1 (init_db empty_database) = None \<and>
   complete_order [''username'' \<mapsto> ''kitchen'', ''role'' \<mapsto> ''kitchen''] 1 5000
       (init_db empty_database) =
     ((ErrorBody ''Order not found'', 404), init_db empty_database)"
proof -
  let ?d1 = "snd (create_order_db ''Thabo''
                [\<lparr>ci_id = 7, ci_name = ''Braaied Wors'', ci_quantity = 3, ci_price = 100,
                  ci_side_option = Some ''Uphuthu''\<rparr>]
                300 ''cashier'' ''cash'' 1000 1001 (init_db empty_database))"
  let ?placed = "\<lparr>o_id = 1, o_customer_name = ''Thabo'', o_total = 300,
                  o_status = ''pending'', o_payment_method = ''cash'', o_timestamp = 1000,
                  o_ready_time = Some 900001001, o_completed_at = None,
                  o_cashier_id = Some 1\<rparr>"
  let ?sess = "[''username'' \<mapsto> ''kitchen'', ''role'' \<mapsto> ''kitchen'']"
  have placed: "select_order 1 ?d1 = Some ?placed"
    by (simp add: create_order_db_def init_db_defs select_menu_item_def select_order_def
        get_user_id_def insert_stock_history_def timedelta_minutes_def Let_def)
  have missing: "select_order 1 (init_db empty_database) = None"
    by (simp add: init_db_defs select_order_def)
  have sess: "?sess ''username'' = Some ''kitchen'' \<and> ?sess ''role'' = Some ''kitchen''"
    by simp
  from complete_order_db_sets_ready [of 1 ?d1 ?placed 5000 7000] placed
    complete_order_db_sets_ready [of 1 "init_db empty_database" _ 5000 _ ?sess "''kitchen''"]
    missing sess
  show ?thesis unfolding Let_def by blast
qed

subsection \<open>Deleting an item\<close>

text \<open>
  C8. When an order line references the item, \<^verbatim>\<open>delete_menu_item\<close> returns the result
  \<open>success = False\<close> with its message (a value, not an exception) and the database it was
  given, so the item and its stock history stay. When no order line references it, the result
  is \<open>success = True\<close>, the item can no longer be selected, no stock-history row of the item
  is left, and nothing else changes: the rows of other items stay in both tables.
\<close>

theorem delete_menu_item_guard:
  "(find (\<lambda>oi. oi_menu_item_id oi = item_id) (order_items d) \<noteq> None \<longrightarrow>
      delete_menu_item item_id d =
        (\<lparr>success = False, message = ''Cannot delete item that has been used in orders''\<rparr>, d)) \<and>
   (find (\<lambda>oi. oi_menu_item_id oi = item_id) (order_items d) = None \<longrightarrow>
      fst (delete_menu_item item_id d) =
        \<lparr>success = True, message = ''Item deleted successfully''\<rparr> \<and>
      select_menu_item item_id (snd (delete_menu_item item_id d)) = None \<and>
      filter (\<lambda>h. sh_menu_item_id h = item_id) (stock_history (snd (delete_menu_item item_id d))) = [] \<and>
      snd (delete_menu_item item_id d) =
        d\<lparr>menu_items := filter (\<lambda>m. mi_id m \<noteq> item_id) (menu_items d),
          stock_history := filter (\<lambda>h. sh_menu_item_id h \<noteq> item_id) (stock_history d)\<rparr>)"
proof -
  have count: "(length (filter (\<lambda>oi. oi_menu_item_id oi = item_id) (order_items d)) > 0) =
      (find (\<lambda>oi. oi_menu_item_id oi = item_id) (order_items d) \<noteq> None)"
    by (auto simp: find_None_iff filter_empty_conv)
  have gone: "find (\<lambda>m. mi_id m = item_id) (filter (\<lambda>m. mi_id m \<noteq> item_id) xs) = None"
    for xs :: "menu_item list"
    by (simp add: find_None_iff)
  show ?thesis
    unfolding delete_menu_item_def Let_def count
    by (simp add: select_menu_item_def gone filter_empty_conv)
qed

text \<open>
  Braaied Wors after an order for it cannot be deleted; a newly added item (id 16, with its
  \<open>initial\<close> history row) can, and its history goes with it.
\<close>

theorem delete_menu_item_guard_witness:
  "(let d1 = snd (create_order_db ''Thabo''
                [\<lparr>ci_id = 7, ci_name = ''Braaied Wors'', ci_quantity = 3, ci_price = 100,
                  ci_side_option = Some ''Uphuthu''\<rparr>]
                300 ''cashier'' ''cash'' 1000 1001 (init_db empty_database))
    in find (\<lambda>oi. oi_menu_item_id oi = 7) (order_items d1) \<noteq> None \<and>
       delete_menu_item 7 d1 =
         (\<lparr>success = False, message = ''Cannot delete item that has been used in orders''\<rparr>,
          d1)) \<and>
   (let d2 = snd (add_menu_item ''Pap'' 10 ''Sides'' 5 0 ''puncher'' (init_db empty_database))
    in find (\<lambda>oi. oi_menu_item_id oi = 16) (order_items d2) = None \<and>
       map sh_menu_item_id (stock_history d2) = [16] \<and>
       fst (delete_menu_item 16 d2) =
         \<lparr>success = True, message = ''Item deleted successfully''\<rparr> \<and>
       select_menu_item 16 (snd (delete_menu_item 16 d2)) = None \<and>
       stock_history (snd (delete_menu_item 16 d2)) = [])"
proof -
  let ?d1 = "snd (create_order_db ''Thabo''
                [\<lparr>ci_id = 7, ci_name = ''Braaied Wors'', ci_quantity = 3, ci_price = 100,
                  ci_side_option = Some ''Uphuthu''\<rparr>]
                300 ''cashier'' ''cash'' 1000 1001 (init_db empty_database))"
  let ?d2 = "snd (add_menu_item ''Pap'' 10 ''Sides'' 5 0 ''puncher'' (init_db empty_database))"
  have used: "find (\<lambda>oi. oi_menu_item_id oi = 7) (order_items ?d1) \<noteq> None"
    by (simp add: create_order_db_def init_db_defs select_menu_item_def select_order_def
        get_user_id_def insert_stock_history_def timedelta_minutes_def Let_def)
  have unused: "find (\<lambda>oi. oi_menu_item_id oi = 16) (order_items ?d2) = None"
    by (simp add: add_menu_item_def init_db_defs Let_def)
  have history: "stock_history ?d2 =
      [\<lparr>sh_id = 1, sh_menu_item_id = 16, sh_menu_item_name = ''Pap'', sh_quantity_change = 5,
        sh_stock_before = 0, sh_stock_after = 5, sh_change_type = ''initial'',
        sh_notes = Some ''Initial stock'', sh_puncher_id = Some 4\<rparr>]"
    by (simp add: add_menu_item_def init_db_defs get_user_id_def insert_stock_history_def Let_def)
  from delete_menu_item_guard [of 7 ?d1] used
  have a: "delete_menu_item 7 ?d1 =
         (\<lparr>success = False, message = ''Cannot delete item that has been used in orders''\<rparr>,
          ?d1)"
    by blast
  from delete_menu_item_guard [of 16 ?d2] unused
  have b: "fst (delete_menu_item 16 ?d2) =
         \<lparr>success = True, message = ''Item deleted successfully''\<rparr> \<and>
       select_menu_item 16 (snd (delete_menu_item 16 ?d2)) = None"
    and c: "snd (delete_menu_item 16 ?d2) =
        ?d2\<lparr>menu_items := filter (\<lambda>m. mi_id m \<noteq> 16) (menu_items ?d2),
          stock_history := filter (\<lambda>h. sh_menu_item_id h \<noteq> 16) (stock_history ?d2)\<rparr>"
    by blast+
  have e: "stock_history (snd (delete_menu_item 16 ?d2)) = []"
    by (simp add: c history)
  from used a unused b e show ?thesis
    unfolding Let_def by (simp add: history)
qed

subsection \<open>Editing an item\<close>

text \<open>
  C9. \<^verbatim>\<open>update_menu_item\<close> leaves the id and the stock of every menu row as they were,
  appends nothing to the stock history, and changes no table but \<open>menu_items\<close>.
\<close>

theorem update_menu_item_keeps_stock:
  "map mi_id (menu_items (snd (update_menu_item item_id name price category requires_side u d))) =
     map mi_id (menu_items d) \<and>
   map mi_stock (menu_items (snd (update_menu_item item_id name price category requires_side u d))) =
     map mi_stock (menu_items d) \<and>
   stock_history (snd (update_menu_item item_id name price category requires_side u d)) =
     stock_history d \<and>
   (snd (update_menu_item item_id name price category requires_side u d))
     \<lparr>menu_items := menu_items d\<rparr> = d"
  by (simp add: update_menu_item_def Let_def)

subsection \<open>Unknown item\<close>

text \<open>
  C10. For an item id that matches no menu row \<^verbatim>\<open>update_stock\<close> returns \<open>None\<close> and the
  database it was given, and the route answers 400 with the message
  \<open>Failed to update stock. Stock cannot be negative.\<close>: the same value and the same answer
  as for a delta that would take an existing item below zero.
\<close>

theorem update_stock_unknown_item:
  "(select_menu_item item_id d = None \<longrightarrow>
      update_stock item_id delta u n d = (None, d) \<and>
      (sess ''username'' = Some u \<and> sess ''role'' = Some ''puncher'' \<longrightarrow>
         puncher_update_stock sess item_id (Some delta) n d =
           ((ErrorBody ''Failed to update stock. Stock cannot be negative.'', 400), d))) \<and>
   (select_menu_item item_id d = Some item \<and> mi_stock item + delta < 0 \<longrightarrow>
      update_stock item_id delta u n d = (None, d) \<and>
      (sess ''username'' = Some u \<and> sess ''role'' = Some ''puncher'' \<longrightarrow>
         puncher_update_stock sess item_id (Some delta) n d =
           ((ErrorBody ''Failed to update stock. Stock cannot be negative.'', 400), d)))"
  by (auto simp: update_stock_existing puncher_update_stock_def) (auto simp: update_stock_def)


text \<open>Item 99 does not exist in a new database; minus 60 on the 50 Braaied Wors underflows.\<close>

theorem update_stock_unknown_item_witness:
  "select_menu_item 99 (init_db empty_database) = None \<and>
   update_stock 99 5 ''puncher'' ''delivery'' (init_db empty_database) =
     (None, init_db empty_database) \<and>
   puncher_update_stock [''username'' \<mapsto> ''puncher'', ''role'' \<mapsto> ''puncher''] 99 (Some 5)
       ''delivery'' (init_db empty_database) =
     ((ErrorBody ''Failed to update stock. Stock cannot be negative.'', 400),
      init_db empty_database) \<and>
   select_menu_item 7 (init_db empty_database) =
     Some \<lparr>mi_id = 7, mi_name = ''Braaied Wors'', mi_price = 80, mi_category = ''Meat'',
           mi_stock = 50, mi_requires_side = 1\<rparr> \<and>
   puncher_update_stock [''username'' \<mapsto> ''puncher'', ''role'' \<mapsto> ''puncher''] 7 (Some (- 60))
       ''spoiled'' (init_db empty_database) =
     ((ErrorBody ''Failed to update stock. Stock cannot be negative.'', 400),
      init_db empty_database)"
proof -
  let ?d = "init_db empty_database"
  let ?sess = "[''username'' \<mapsto> ''puncher'', ''role'' \<mapsto> ''puncher'']"
  let ?wors = "\<lparr>mi_id = 7, mi_name = ''Braaied Wors'', mi_price = 80, mi_category = ''Meat'',
           mi_stock = 50, mi_requires_side = 1\<rparr>"
  have unknown: "select_menu_item 99 ?d = None"
    by (simp add: init_db_defs select_menu_item_def)
  have known: "select_menu_item 7 ?d = Some ?wors"
    by (simp add: init_db_defs select_menu_item_def)
  have sess: "?sess ''username'' = Some ''puncher'' \<and> ?sess ''role'' = Some ''puncher''"
    by simp
  from update_stock_unknown_item [of 99 ?d 5 "''puncher''" "''delivery''" ?sess] unknown sess
  have a: "update_stock 99 5 ''puncher'' ''delivery'' ?d = (None, ?d) \<and>
     puncher_update_stock ?sess 99 (Some 5) ''delivery'' ?d =
       ((ErrorBody ''Failed to update stock. Stock cannot be negative.'', 400), ?d)"
    by blast
  from update_stock_unknown_item [of 7 ?d "- 60" "''puncher''" "''spoiled''" ?sess ?wors]
    known sess
  have b: "puncher_update_stock ?sess 7 (Some (- 60)) ''spoiled'' ?d =
       ((ErrorBody ''Failed to update stock. Stock cannot be negative.'', 400), ?d)"
    by simp
  from unknown a known b show ?thesis by simp
qed

subsection \<open>The loop of order submission\<close>

lemma order_lines_Cons:
  "order_lines order_id (item # items) d =
     (case select_menu_item (ci_id item) d of
        None \<Rightarrow> Inl TypeError
      | Some current \<Rightarrow> order_lines order_id items (order_line_step order_id item current d))"
  by (simp add: Let_def order_line_step_def select_menu_item_def split: option.splits)

declare order_lines.simps(2) [simp del]

lemma order_line_step_frame [simp]:
  "users (order_line_step order_id item current d) = users d"
  "users_seq (order_line_step order_id item current d) = users_seq d"
  "menu_items_seq (order_line_step order_id item current d) = menu_items_seq d"
  "orders (order_line_step order_id item current d) = orders d"
  "orders_seq (order_line_step order_id item current d) = orders_seq d"
  by (simp_all add: order_line_step_def)

lemma order_line_step_menu_items:
  "menu_items (order_line_step order_id item current d) =
     map (\<lambda>m. if mi_id m = ci_id item
               then m\<lparr>mi_stock := mi_stock m - ci_quantity item\<rparr> else m) (menu_items d)"
  by (simp add: order_line_step_def)

lemma order_line_step_order_items:
  "\<exists>row. order_items (order_line_step order_id item current d) = order_items d @ [row] \<and>
         line_for order_id item row"
  by (simp add: order_line_step_def line_for_def)

lemma order_line_step_stock_history:
  "\<exists>row. stock_history (order_line_step order_id item current d) = stock_history d @ [row] \<and>
         sale_entry_for order_id item row \<and> ledger_entry_consistent row"
  by (simp add: order_line_step_def insert_stock_history_rows sale_entry_for_def
      ledger_entry_consistent_def)

lemma order_lines_frame:
  "order_lines order_id items d = Inr d' \<Longrightarrow>
     users d' = users d \<and> users_seq d' = users_seq d \<and> menu_items_seq d' = menu_items_seq d \<and>
     orders d' = orders d \<and> orders_seq d' = orders_seq d"
proof (induction items arbitrary: d)
  case Nil
  then show ?case by simp
next
  case (Cons item items)
  from Cons.prems obtain current where
    "order_lines order_id items (order_line_step order_id item current d) = Inr d'"
    by (auto simp: order_lines_Cons split: option.splits)
  from Cons.IH [OF this] show ?case by simp
qed

lemma order_lines_order_items:
  "order_lines order_id items d = Inr d' \<Longrightarrow>
     \<exists>rows. order_items d' = order_items d @ rows \<and> list_all2 (line_for order_id) items rows"
proof (induction items arbitrary: d)
  case Nil
  then show ?case by simp
next
  case (Cons item items)
  from Cons.prems obtain current where
    rest: "order_lines order_id items (order_line_step order_id item current d) = Inr d'"
    by (auto simp: order_lines_Cons split: option.splits)
  obtain row where row:
    "order_items (order_line_step order_id item current d) = order_items d @ [row]"
    "line_for order_id item row"
    using order_line_step_order_items by blast
  from Cons.IH [OF rest] row obtain rows where
    "order_items d' = order_items d @ row # rows" "list_all2 (line_for order_id) items rows"
    by auto
  with row(2) show ?case by (intro exI [of _ "row # rows"]) simp
qed

lemma order_lines_stock_history:
  "order_lines order_id items d = Inr d' \<Longrightarrow>
     \<exists>rows. stock_history d' = stock_history d @ rows \<and>
            list_all2 (sale_entry_for order_id) items rows \<and>
            list_all ledger_entry_consistent rows"
proof (induction items arbitrary: d)
  case Nil
  then show ?case by simp
next
  case (Cons item items)
  from Cons.prems obtain current where
    rest: "order_lines order_id items (order_line_step order_id item current d) = Inr d'"
    by (auto simp: order_lines_Cons split: option.splits)
  obtain row where row:
    "stock_history (order_line_step order_id item current d) = stock_history d @ [row]"
    "sale_entry_for order_id item row" "ledger_entry_consistent row"
    using order_line_step_stock_history by blast
  from Cons.IH [OF rest] row obtain rows where
    "stock_history d' = stock_history d @ row # rows"
    "list_all2 (sale_entry_for order_id) items rows" "list_all ledger_entry_consistent rows"
    by auto
  with row(2,3) show ?case by (intro exI [of _ "row # rows"]) simp
qed

lemma order_lines_menu_items:
  "order_lines order_id items d = Inr d' \<Longrightarrow>
     menu_items d' =
       map (\<lambda>m. m\<lparr>mi_stock := mi_stock m - ordered_quantity (mi_id m) items\<rparr>) (menu_items d)"
proof (induction items arbitrary: d)
  case Nil
  then show ?case by (simp add: ordered_quantity_def)
next
  case (Cons item items)
  from Cons.prems obtain current where
    rest: "order_lines order_id items (order_line_step order_id item current d) = Inr d'"
    by (auto simp: order_lines_Cons split: option.splits)
  from Cons.IH [OF rest] show ?case
    by (simp add: order_line_step_menu_items ordered_quantity_def)
qed


subsection \<open>Row ids\<close>

lemma fold_max_bounds:
  "(seq :: int) \<le> fold max ids seq \<and> (\<forall>x \<in> set ids. x \<le> fold max ids seq)"
proof (induction ids arbitrary: seq)
  case Nil
  then show ?case by simp
next
  case (Cons a ids)
  from Cons.IH [of "max a seq"] show ?case by auto
qed

lemma next_rowid_fresh: "x \<in> set ids \<Longrightarrow> x < next_rowid (seq :: int) ids"
  using fold_max_bounds [of seq ids] by (auto simp: next_rowid_def)

lemma find_snoc:
  "find P (xs @ [x]) = (case find P xs of None \<Rightarrow> (if P x then Some x else None) | Some y \<Rightarrow> Some y)"
  by (induction xs) auto

lemma select_inserted_order:
  assumes "o_id row = next_rowid seq (map o_id rows)"
  shows "find (\<lambda>r. o_id r = o_id row) (rows @ [row]) = Some row"
proof -
  have "find (\<lambda>r. o_id r = o_id row) rows = None"
    using next_rowid_fresh [of _ "map o_id rows" seq] assms
    by (fastforce simp: find_None_iff)
  then show ?thesis by (simp add: find_snoc)
qed

subsection \<open>Order submission\<close>

lemma create_order_db_Inr:
  assumes "create_order_db customer_name items total_amount cashier_username payment_method
             now1 now2 d = (Inr order, d')"
  shows "order =
      \<lparr>o_id = next_rowid (orders_seq d) (map o_id (orders d)),
        o_customer_name = customer_name, o_total = total_amount, o_status = ''pending'',
        o_payment_method = payment_method, o_timestamp = now1,
        o_ready_time = Some (now2 + timedelta_minutes 15), o_completed_at = None,
        o_cashier_id = get_user_id cashier_username d\<rparr> \<and>
     order_lines (o_id order) items
       (d\<lparr>orders := orders d @ [order], orders_seq := o_id order\<rparr>) = Inr d'"
proof -
  let ?oid = "next_rowid (orders_seq d) (map o_id (orders d))"
  let ?new = "\<lparr>o_id = ?oid,
        o_customer_name = customer_name, o_total = total_amount, o_status = ''pending'',
        o_payment_method = payment_method, o_timestamp = now1,
        o_ready_time = Some (now2 + timedelta_minutes 15), o_completed_at = None,
        o_cashier_id = get_user_id cashier_username d\<rparr>"
  let ?d1 = "d\<lparr>orders := orders d @ [?new], orders_seq := ?oid\<rparr>"
  from assms have lines: "order_lines ?oid items ?d1 = Inr d'"
    and sel: "select_order ?oid d' = Some order"
    by (auto simp: create_order_db_def Let_def split: sum.splits option.splits)
  from order_lines_frame [OF lines] have "orders d' = orders d @ [?new]" by simp
  moreover have "find (\<lambda>r. o_id r = o_id ?new) (orders d @ [?new]) = Some ?new"
    by (rule select_inserted_order [of _ "orders_seq d"]) simp
  ultimately have "select_order ?oid d' = Some ?new"
    by (simp add: select_order_def)
  with sel have "order = ?new" by simp
  with lines show ?thesis by simp
qed

text \<open>
  C3. Every call of \<^verbatim>\<open>create_order_db\<close> that returns an order has appended exactly that
  one row to \<open>orders\<close>: status \<open>pending\<close>, ready time the (second) clock reading plus 15
  minutes, the total as passed by the caller, no completion time. It has appended one order
  line per cart line, in order, with the id, name, quantity, price and side option of the cart
  line; it has lowered the stock of every menu item by the quantity the cart orders of it; and
  it has appended one stock-history row per cart line, in order, with change type \<open>sale\<close>,
  the negated quantity, the note \<open>Order #\<close> followed by the new order id, and no puncher id.
\<close>

theorem create_order_db_success:
  assumes "create_order_db customer_name items total_amount cashier_username payment_method
             now1 now2 d = (Inr order, d')"
  shows "order =
      \<lparr>o_id = next_rowid (orders_seq d) (map o_id (orders d)),
        o_customer_name = customer_name, o_total = total_amount, o_status = ''pending'',
        o_payment_method = payment_method, o_timestamp = now1,
        o_ready_time = Some (now2 + timedelta_minutes 15), o_completed_at = None,
        o_cashier_id = get_user_id cashier_username d\<rparr> \<and>
     orders d' = orders d @ [order] \<and>
     (\<exists>rows. order_items d' = order_items d @ rows \<and>
             list_all2 (line_for (o_id order)) items rows) \<and>
     menu_items d' =
       map (\<lambda>m. m\<lparr>mi_stock := mi_stock m - ordered_quantity (mi_id m) items\<rparr>) (menu_items d) \<and>
     (\<exists>rows. stock_history d' = stock_history d @ rows \<and>
             list_all2 (sale_entry_for (o_id order)) items rows)"
proof -
  let ?d1 = "d\<lparr>orders := orders d @ [order], orders_seq := o_id order\<rparr>"
  from create_order_db_Inr [OF assms]
  have row: "order =
      \<lparr>o_id = next_rowid (orders_seq d) (map o_id (orders d)),
        o_customer_name = customer_name, o_total = total_amount, o_status = ''pending'',
        o_payment_method = payment_method, o_timestamp = now1,
        o_ready_time = Some (now2 + timedelta_minutes 15), o_completed_at = None,
        o_cashier_id = get_user_id cashier_username d\<rparr>"
    and lines: "order_lines (o_id order) items ?d1 = Inr d'"
    by blast+
  from order_lines_frame [OF lines] have a: "orders d' = orders d @ [order]" by simp
  from order_lines_order_items [OF lines]
  have b: "\<exists>rows. order_items d' = order_items d @ rows \<and>
             list_all2 (line_for (o_id order)) items rows" by simp
  from order_lines_menu_items [OF lines]
  have c: "menu_items d' =
       map (\<lambda>m. m\<lparr>mi_stock := mi_stock m - ordered_quantity (mi_id m) items\<rparr>) (menu_items d)"
    by simp
  from order_lines_stock_history [OF lines]
  have e: "\<exists>rows. stock_history d' = stock_history d @ rows \<and>
             list_all2 (sale_entry_for (o_id order)) items rows" by auto
  from row a b c e show ?thesis by blast
qed


text \<open>The equations that run an order on a concrete database.\<close>

lemmas run_order_defs =
  create_order_db_def order_lines.simps(2) select_menu_item_def select_order_def get_user_id_def
  insert_stock_history_def timedelta_minutes_def str_int_def str_nat.simps Let_def

text \<open>Three Braaied Wors and two Beer on a new database: stock 50 to 47 and 90 to 88.\<close>

theorem create_order_db_success_witness:
  "(let d = init_db empty_database;
        items = [\<lparr>ci_id = 7, ci_name = ''Braaied Wors'', ci_quantity = 3, ci_price = 100,
                  ci_side_option = Some ''Uphuthu''\<rparr>,
                 \<lparr>ci_id = 15, ci_name = ''Beer'', ci_quantity = 2, ci_price = 25,
                  ci_side_option = None\<rparr>];
        placed = \<lparr>o_id = 1, o_customer_name = ''Thabo'', o_total = 350,
                  o_status = ''pending'', o_payment_method = ''card'', o_timestamp = 1000,
                  o_ready_time = Some 900001001, o_completed_at = None,
                  o_cashier_id = Some 1\<rparr>;
        d' = snd (create_order_db ''Thabo'' items 350 ''cashier'' ''card'' 1000 1001 d)
    in create_order_db ''Thabo'' items 350 ''cashier'' ''card'' 1000 1001 d = (Inr placed, d') \<and>
       orders d' = [placed] \<and>
       list_all2 (line_for 1) items (order_items d') \<and>
       map mi_stock (menu_items d') =
         [50, 40, 45, 35, 40, 35, 47, 30, 30, 100, 100, 80, 50, 120, 88] \<and>
       list_all2 (sale_entry_for 1) items (stock_history d'))"
proof -
  let ?d = "init_db empty_database"
  let ?items = "[\<lparr>ci_id = 7, ci_name = ''Braaied Wors'', ci_quantity = 3, ci_price = 100,
                  ci_side_option = Some ''Uphuthu''\<rparr>,
                 \<lparr>ci_id = 15, ci_name = ''Beer'', ci_quantity = 2, ci_price = 25,
                  ci_side_option = None\<rparr>]"
  let ?placed = "\<lparr>o_id = 1, o_customer_name = ''Thabo'', o_total = 350,
                  o_status = ''pending'', o_payment_method = ''card'', o_timestamp = 1000,
                  o_ready_time = Some 900001001, o_completed_at = None,
                  o_cashier_id = Some 1\<rparr>"
  let ?d' = "snd (create_order_db ''Thabo'' ?items 350 ''cashier'' ''card'' 1000 1001 ?d)"
  have ok: "create_order_db ''Thabo'' ?items 350 ''cashier'' ''card'' 1000 1001 ?d =
      (Inr ?placed, ?d')"
    by (simp add: run_order_defs init_db_defs prod_eq_iff)
  have empty: "orders ?d = []" "order_items ?d = []" "stock_history ?d = []"
    by (simp_all add: init_db_defs)
  have stocks: "map (\<lambda>m. mi_stock m - ordered_quantity (mi_id m) ?items) (menu_items ?d) =
      [50, 40, 45, 35, 40, 35, 47, 30, 30, 100, 100, 80, 50, 120, 88]"
    by (simp add: init_db_defs ordered_quantity_def)
  from create_order_db_success [OF ok]
  have "orders ?d' = orders ?d @ [?placed]"
    and "\<exists>rows. order_items ?d' = order_items ?d @ rows \<and>
             list_all2 (line_for (o_id ?placed)) ?items rows"
    and "menu_items ?d' =
       map (\<lambda>m. m\<lparr>mi_stock := mi_stock m - ordered_quantity (mi_id m) ?items\<rparr>) (menu_items ?d)"
    and "\<exists>rows. stock_history ?d' = stock_history ?d @ rows \<and>
             list_all2 (sale_entry_for (o_id ?placed)) ?items rows"
    by blast+
  then have "orders ?d' = [?placed]"
    and "list_all2 (line_for 1) ?items (order_items ?d')"
    and "map mi_stock (menu_items ?d') =
         [50, 40, 45, 35, 40, 35, 47, 30, 30, 100, 100, 80, 50, 120, 88]"
    and "list_all2 (sale_entry_for 1) ?items (stock_history ?d')"
    using stocks by (simp_all add: empty o_def)
  with ok show ?thesis unfolding Let_def by blast
qed


subsection \<open>Ledger rows\<close>

lemma create_order_db_stock_history:
  "\<exists>rows. stock_history (snd (create_order_db customer_name items total_amount cashier_username
                                 payment_method now1 now2 d)) = stock_history d @ rows \<and>
          list_all ledger_entry_consistent rows"
proof (cases "order_lines (next_rowid (orders_seq d) (map o_id (orders d))) items
    (d\<lparr>orders := orders d @
          [\<lparr>o_id = next_rowid (orders_seq d) (map o_id (orders d)),
            o_customer_name = customer_name, o_total = total_amount, o_status = ''pending'',
            o_payment_method = payment_method, o_timestamp = now1,
            o_ready_time = Some (now2 + timedelta_minutes 15), o_completed_at = None,
            o_cashier_id = get_user_id cashier_username d\<rparr>],
        orders_seq := next_rowid (orders_seq d) (map o_id (orders d))\<rparr>)")
  case (Inl e)
  then show ?thesis by (simp add: create_order_db_def Let_def)
next
  case (Inr d2)
  from order_lines_stock_history [OF Inr] obtain rows where
    "stock_history d2 = stock_history d @ rows" "list_all ledger_entry_consistent rows"
    by auto
  moreover from Inr have "snd (create_order_db customer_name items total_amount cashier_username
                                 payment_method now1 now2 d) = d2"
    by (simp add: create_order_db_def Let_def split: option.splits)
  ultimately show ?thesis by simp
qed

lemma add_menu_item_stock_history:
  "stock_history (snd (add_menu_item name price category stock requires_side u d)) =
     stock_history d @
       [\<lparr>sh_id = next_rowid (stock_history_seq d) (map sh_id (stock_history d)),
         sh_menu_item_id = next_rowid (menu_items_seq d) (map mi_id (menu_items d)),
         sh_menu_item_name = name, sh_quantity_change = stock, sh_stock_before = 0,
         sh_stock_after = stock, sh_change_type = ''initial'',
         sh_notes = Some ''Initial stock'', sh_puncher_id = get_user_id u d\<rparr>]"
  by (simp add: add_menu_item_def Let_def insert_stock_history_def get_user_id_def)

lemma update_stock_stock_history:
  "\<exists>rows. stock_history (snd (update_stock item_id delta u n d)) = stock_history d @ rows \<and>
          list_all ledger_entry_consistent rows"
proof (cases "select_menu_item item_id d")
  case None
  then show ?thesis by (simp add: update_stock_def)
next
  case (Some item)
  show ?thesis
    by (simp add: update_stock_existing [OF Some] insert_stock_history_rows
        ledger_entry_consistent_def)
qed

text \<open>
  C4. The stock-history rows that \<^verbatim>\<open>create_order_db\<close> (sale rows),
  \<^verbatim>\<open>add_menu_item\<close> (the initial row) and \<^verbatim>\<open>update_stock\<close> (restock and adjustment rows)
  append, the only functions that write the table, all satisfy
  \<open>stock_after = stock_before + quantity_change\<close>.
\<close>

theorem stock_history_entries_consistent:
  "(\<exists>rows. stock_history (snd (create_order_db customer_name items total_amount cashier_username
                                  payment_method now1 now2 d)) = stock_history d @ rows \<and>
           list_all ledger_entry_consistent rows) \<and>
   (\<exists>rows. stock_history (snd (add_menu_item name price category stock requires_side u d)) =
             stock_history d @ rows \<and>
           list_all ledger_entry_consistent rows) \<and>
   (\<exists>rows. stock_history (snd (update_stock item_id delta u n d)) = stock_history d @ rows \<and>
           list_all ledger_entry_consistent rows)"
proof (intro conjI)
  show "\<exists>rows. stock_history (snd (create_order_db customer_name items total_amount
                  cashier_username payment_method now1 now2 d)) = stock_history d @ rows \<and>
           list_all ledger_entry_consistent rows"
    by (rule create_order_db_stock_history)
  show "\<exists>rows. stock_history (snd (add_menu_item name price category stock requires_side u d)) =
             stock_history d @ rows \<and>
           list_all ledger_entry_consistent rows"
    by (simp add: add_menu_item_stock_history ledger_entry_consistent_def)
  show "\<exists>rows. stock_history (snd (update_stock item_id delta u n d)) = stock_history d @ rows \<and>
           list_all ledger_entry_consistent rows"
    by (rule update_stock_stock_history)
qed

text \<open>
  The scenario of the specification: three Braaied Wors sold from 50 give the row
  \<open>(-3, 50, 47, sale)\<close>.
\<close>

theorem stock_history_entries_consistent_witness:
  "(let d' = snd (create_order_db ''Thabo''
                [\<lparr>ci_id = 7, ci_name = ''Braaied Wors'', ci_quantity = 3, ci_price = 100,
                  ci_side_option = Some ''Uphuthu''\<rparr>]
                300 ''cashier'' ''cash'' 1000 1001 (init_db empty_database))
    in stock_history d' =
         [\<lparr>sh_id = 1, sh_menu_item_id = 7, sh_menu_item_name = ''Braaied Wors'',
           sh_quantity_change = - 3, sh_stock_before = 50, sh_stock_after = 47,
           sh_change_type = ''sale'', sh_notes = Some ''Order #1'', sh_puncher_id = None\<rparr>] \<and>
       list_all ledger_entry_consistent (stock_history d'))"
proof -
  let ?d = "init_db empty_database"
  let ?d' = "snd (create_order_db ''Thabo''
                [\<lparr>ci_id = 7, ci_name = ''Braaied Wors'', ci_quantity = 3, ci_price = 100,
                  ci_side_option = Some ''Uphuthu''\<rparr>]
                300 ''cashier'' ''cash'' 1000 1001 ?d)"
  have before: "stock_history ?d = []"
    by (simp add: init_db_defs)
  have after: "stock_history ?d' =
         [\<lparr>sh_id = 1, sh_menu_item_id = 7, sh_menu_item_name = ''Braaied Wors'',
           sh_quantity_change = - 3, sh_stock_before = 50, sh_stock_after = 47,
           sh_change_type = ''sale'', sh_notes = Some ''Order #1'', sh_puncher_id = None\<rparr>]"
    by (simp add: run_order_defs init_db_defs)
  from stock_history_entries_consistent [of "''Thabo''"
      "[\<lparr>ci_id = 7, ci_name = ''Braaied Wors'', ci_quantity = 3, ci_price = 100,
         ci_side_option = Some ''Uphuthu''\<rparr>]" 300 "''cashier''" "''cash''" 1000 1001 ?d]
  obtain rows where "stock_history ?d' = stock_history ?d @ rows"
    "list_all ledger_entry_consistent rows" by blast
  with before have "list_all ledger_entry_consistent (stock_history ?d')" by simp
  with after show ?thesis unfolding Let_def by blast
qed

subsection \<open>Stock below zero\<close>

lemma select_menu_item_order_line_step:
  "select_menu_item k (order_line_step order_id item current d) =
     map_option (\<lambda>m. if mi_id m = ci_id item
                      then m\<lparr>mi_stock := mi_stock m - ci_quantity item\<rparr> else m)
       (select_menu_item k d)"
  by (simp add: select_menu_item_def order_line_step_menu_items find_map_same_key)

lemma order_lines_total:
  "list_all (\<lambda>i. select_menu_item (ci_id i) d \<noteq> None) items \<Longrightarrow>
     \<exists>d'. order_lines order_id items d = Inr d'"
proof (induction items arbitrary: d)
  case Nil
  then show ?case by simp
next
  case (Cons item items)
  from Cons.prems obtain current where cur: "select_menu_item (ci_id item) d = Some current"
    by auto
  from Cons.prems
  have "list_all (\<lambda>i. select_menu_item (ci_id i) (order_line_step order_id item current d) \<noteq> None)
          items"
    by (simp add: select_menu_item_order_line_step)
  from Cons.IH [OF this] cur show ?case by (simp add: order_lines_Cons)
qed

text \<open>
  No quantity is refused: a cart whose lines all name existing items is always committed,
  whatever the stocks.
\<close>

lemma create_order_db_total:
  assumes "list_all (\<lambda>i. select_menu_item (ci_id i) d \<noteq> None) items"
  shows "\<exists>order d'. create_order_db customer_name items total_amount cashier_username
                       payment_method now1 now2 d = (Inr order, d')"
proof -
  let ?oid = "next_rowid (orders_seq d) (map o_id (orders d))"
  let ?new = "\<lparr>o_id = ?oid,
        o_customer_name = customer_name, o_total = total_amount, o_status = ''pending'',
        o_payment_method = payment_method, o_timestamp = now1,
        o_ready_time = Some (now2 + timedelta_minutes 15), o_completed_at = None,
        o_cashier_id = get_user_id cashier_username d\<rparr>"
  let ?d1 = "d\<lparr>orders := orders d @ [?new], orders_seq := ?oid\<rparr>"
  from assms have "list_all (\<lambda>i. select_menu_item (ci_id i) ?d1 \<noteq> None) items"
    by (simp add: select_menu_item_def)
  from order_lines_total [OF this] obtain d2 where d2: "order_lines ?oid items ?d1 = Inr d2"
    by blast
  from order_lines_frame [OF d2] have "orders d2 = orders d @ [?new]" by simp
  moreover have "find (\<lambda>r. o_id r = o_id ?new) (orders d @ [?new]) = Some ?new"
    by (rule select_inserted_order [of _ "orders_seq d"]) simp
  ultimately have "select_order ?oid d2 = Some ?new"
    by (simp add: select_order_def)
  with d2 show ?thesis by (simp add: create_order_db_def Let_def)
qed

text \<open>Stock adjustment, for its part, never takes a stock below zero.\<close>

lemma update_stock_keeps_stock_nonnegative:
  assumes "list_all (\<lambda>m. 0 \<le> mi_stock m) (menu_items d)"
  shows "list_all (\<lambda>m. 0 \<le> mi_stock m) (menu_items (snd (update_stock item_id delta u n d)))"
proof (cases "select_menu_item item_id d")
  case None
  with assms show ?thesis by (simp add: update_stock_def)
next
  case (Some item)
  with assms show ?thesis
    by (auto simp: update_stock_existing list_all_iff)
qed

text \<open>
  The one failure \<^verbatim>\<open>create_order_db\<close> has is a cart line whose item does not exist; the
  exception comes before the commit, and nothing of the order is stored.
\<close>

lemma create_order_db_failure_commits_nothing:
  assumes "fst (create_order_db customer_name items total_amount cashier_username payment_method
                  now1 now2 d) = Inl e"
  shows "snd (create_order_db customer_name items total_amount cashier_username payment_method
                now1 now2 d) = d"
proof -
  let ?oid = "next_rowid (orders_seq d) (map o_id (orders d))"
  let ?new = "\<lparr>o_id = ?oid,
        o_customer_name = customer_name, o_total = total_amount, o_status = ''pending'',
        o_payment_method = payment_method, o_timestamp = now1,
        o_ready_time = Some (now2 + timedelta_minutes 15), o_completed_at = None,
        o_cashier_id = get_user_id cashier_username d\<rparr>"
  let ?d1 = "d\<lparr>orders := orders d @ [?new], orders_seq := ?oid\<rparr>"
  show ?thesis
  proof (cases "order_lines ?oid items ?d1")
    case (Inl e')
    then show ?thesis by (simp add: create_order_db_def Let_def)
  next
    case (Inr d2)
    from order_lines_frame [OF Inr] have "orders d2 = orders d @ [?new]" by simp
    moreover have "find (\<lambda>r. o_id r = o_id ?new) (orders d @ [?new]) = Some ?new"
      by (rule select_inserted_order [of _ "orders_seq d"]) simp
    ultimately have "select_order ?oid d2 = Some ?new"
      by (simp add: select_order_def)
    with Inr assms show ?thesis by (simp add: create_order_db_def Let_def)
  qed
qed

lemma create_order_db_unknown_item:
  "create_order_db ''Thabo''
     [\<lparr>ci_id = 14, ci_name = ''Soft Drink'', ci_quantity = 2, ci_price = 15,
       ci_side_option = None\<rparr>,
      \<lparr>ci_id = 99, ci_name = ''Ghost'', ci_quantity = 1, ci_price = 25,
       ci_side_option = None\<rparr>]
     55 ''cashier'' ''cash'' 1000 1001 (init_db empty_database) =
   (Inl TypeError, init_db empty_database)"
  by (simp add: run_order_defs init_db_defs)

text \<open>\<^verbatim>\<open>add_menu_item\<close> stores the initial stock it is given.\<close>

lemma add_menu_item_negative_stock:
  "map_option mi_stock
     (fst (add_menu_item ''Pap'' 10 ''Sides'' (- 5) 0 ''puncher'' (init_db empty_database))) =
   Some (- 5)"
  by (simp add: add_menu_item_def select_menu_item_def get_user_id_def insert_stock_history_def
      init_db_defs Let_def)

text \<open>
  C1 says that a cart with a line whose quantity exceeds the stock of its item is refused
  as a whole and changes nothing. \<^verbatim>\<open>create_order_db\<close> compares no quantity with any stock
  (\<open>create_order_db_total\<close>), and here, on a new database, the cart of two Soft Drinks, one
  Beer and 60 Braaied Wors (50 in stock) is committed in full: the order is returned, the
  order row and the three order lines are stored, the three stocks are lowered, to minus 10
  for the Braaied Wors, and three sale rows are logged.
\<close>

theorem create_order_db_commits_oversold_cart:
  "(let d = init_db empty_database;
        items = [\<lparr>ci_id = 14, ci_name = ''Soft Drink'', ci_quantity = 2, ci_price = 15,
                  ci_side_option = None\<rparr>,
                 \<lparr>ci_id = 15, ci_name = ''Beer'', ci_quantity = 1, ci_price = 25,
                  ci_side_option = None\<rparr>,
                 \<lparr>ci_id = 7, ci_name = ''Braaied Wors'', ci_quantity = 60, ci_price = 100,
                  ci_side_option = Some ''Uphuthu''\<rparr>];
        result = create_order_db ''Thabo'' items 6055 ''cashier'' ''cash'' 1000 1001 d
    in map_option mi_stock (select_menu_item 7 d) = Some 50 \<and>
       fst result =
         Inr \<lparr>o_id = 1, o_customer_name = ''Thabo'', o_total = 6055, o_status = ''pending'',
              o_payment_method = ''cash'', o_timestamp = 1000, o_ready_time = Some 900001001,
              o_completed_at = None, o_cashier_id = Some 1\<rparr> \<and>
       length (orders (snd result)) = 1 \<and>
       map oi_menu_item_id (order_items (snd result)) = [14, 15, 7] \<and>
       map_option mi_stock (select_menu_item 14 (snd result)) = Some 118 \<and>
       map_option mi_stock (select_menu_item 15 (snd result)) = Some 89 \<and>
       map_option mi_stock (select_menu_item 7 (snd result)) = Some (- 10) \<and>
       map (\<lambda>h. (sh_menu_item_id h, sh_quantity_change h, sh_stock_before h, sh_stock_after h))
           (stock_history (snd result)) =
         [(14, - 2, 120, 118), (15, - 1, 90, 89), (7, - 60, 50, - 10)])"
  by (simp add: run_order_defs init_db_defs)

text \<open>
  C2 says that no operation commits a negative stock. \<^verbatim>\<open>update_stock\<close> keeps to it
  (\<open>update_stock_keeps_stock_nonnegative\<close>); \<^verbatim>\<open>create_order_db\<close> does not: from a new
  database, where every stock is non-negative, an order for 60 Braaied Wors commits the
  stock minus 10.
\<close>

theorem create_order_db_drives_stock_negative:
  "(let d = init_db empty_database;
        d' = snd (create_order_db ''Thabo''
               [\<lparr>ci_id = 7, ci_name = ''Braaied Wors'', ci_quantity = 60, ci_price = 100,
                 ci_side_option = Some ''Uphuthu''\<rparr>]
               6000 ''cashier'' ''cash'' 1000 1001 d)
    in list_all (\<lambda>m. 0 \<le> mi_stock m) (menu_items d) \<and>
       select_menu_item 7 d' =
         Some \<lparr>mi_id = 7, mi_name = ''Braaied Wors'', mi_price = 80, mi_category = ''Meat'',
               mi_stock = - 10, mi_requires_side = 1\<rparr> \<and>
       \<not> list_all (\<lambda>m. 0 \<le> mi_stock m) (menu_items d'))"
  by (simp add: run_order_defs init_db_defs)

end
